theory Spec2Isabelle
  imports Main "HOL-Library.Multiset" "HOL-Library.Char_ord" "HOL-Library.List_Lexorder"
begin

section \<open>Shared vocabulary\<close>

text \<open>
  Go functions return a pair of a value and an \<open>error\<close>; the pair is kept as it is, with
  \<open>None\<close> for \<open>nil\<close>. An error is identified by its message. Everything a function
  does besides returning (a log line, an HTTP request, opening a file) is an event of
  its trace, in program order.
\<close>

type_synonym error = string

datatype level = DebugLevel | InfoLevel | WarnLevel | ErrorLevel

datatype event =
    Log level string
  | PostPinningPins string string
  | HttpDo string string
  | OpenFile string
  | PostContentAddCar string

text \<open>
  A call that can panic has a result of type \<open>go\<close>: the values it returns, or the
  panic. A panic that nothing recovers ends the process, whichever goroutine raises it.
\<close>

datatype 'a go = Returns 'a | Panics string

text \<open>
  Modelled from the spec: \<open>model.StorageSpec\<close> and \<open>model.JobShard\<close> are declared in
  \<open>pkg/model\<close>, which is not among the sources. The spec gives a publish spec as
  \<open>(cid, name, storage_source)\<close> and a shard as \<open>(job_id, shard_index)\<close>. The
  first source stands for the zero value, which \<open>model.StorageSpec{}\<close> carries.
\<close>

datatype StorageSourceType = StorageSourceUnknown | StorageSourceIPFS | StorageSourceEstuary

record StorageSpec =
  StorageSource :: StorageSourceType
  Name :: string
  CID :: string

record JobShard =
  JobID :: string
  Index :: nat

section \<open>pkg/publisher/estuary/pinner.go\<close>

text \<open>
  The two fields of \<open>EstuaryPinner\<close> are interface values; each is the behaviour of the
  one method the decorator calls. \<open>apiClient\<close> is \<open>PostPinningPinsWithResponse\<close>: it
  takes the \<open>Cid\<close> and \<open>Name\<close> of the request body and gives the response and the
  error. The response is a pointer: \<open>None\<close> is the nil pointer, which a request that
  failed leaves, and \<open>Some status\<close> is a response whose \<open>StatusCode()\<close> reads
  \<open>status\<close>.
\<close>

record EstuaryPinner =
  ipfsPublisher :: "JobShard \<Rightarrow> string \<Rightarrow> string \<Rightarrow> StorageSpec \<times> error option"
  apiClient :: "string \<Rightarrow> string \<Rightarrow> int option \<times> error option"

definition StatusAccepted :: int where
  "StatusAccepted = 202"

text \<open>
  The body of the goroutine started after a successful publish. The check of the two
  fields has no \<open>return\<close>: the request follows it on both branches. After the request,
  \<open>response.StatusCode()\<close> is read before \<open>err\<close> is looked at, so a nil response is
  dereferenced and the goroutine panics; the last log line is reached only with a
  response in hand.
\<close>

definition pin_goroutine :: "EstuaryPinner \<Rightarrow> StorageSpec \<Rightarrow> event list \<times> unit go" where
  "pin_goroutine e spec =
     (let guard = (if CID spec = '''' \<or> Name spec = ''''
                   then [Log ErrorLevel ''Spec did not contain a CID or name to pin to Estuary'']
                   else [])
      in case apiClient e (CID spec) (Name spec) of
           (None, err) \<Rightarrow>
             (guard @ [PostPinningPins (CID spec) (Name spec)],
              Panics ''runtime error: invalid memory address or nil pointer dereference'')
         | (Some status, err) \<Rightarrow>
             (let success = (status = StatusAccepted \<and> err = None);
                  lvl = (if success then InfoLevel else ErrorLevel)
              in (guard @ [PostPinningPins (CID spec) (Name spec),
                           Log lvl ''Attempted to pin to Estuary''],
                  Returns ())))"

text \<open>
  What one call of the decorator does: the pair it returns, the lines it logs itself,
  and the goroutine it leaves behind (\<open>None\<close> when none is started), by its trace
  and how it ends.
\<close>

record pin_outcome =
  returned :: "StorageSpec \<times> error option"
  logged :: "event list"
  detached :: "(event list \<times> unit go) option"

definition Pinner_PublishShardResult ::
  "EstuaryPinner \<Rightarrow> JobShard \<Rightarrow> string \<Rightarrow> string \<Rightarrow> pin_outcome" where
  "Pinner_PublishShardResult e shard hostID shardResultPath =
     (case ipfsPublisher e shard hostID shardResultPath of
        (spec, Some err) \<Rightarrow>
          \<lparr>returned = (spec, Some err),
           logged = [Log DebugLevel ''Publishing result to IPFS''],
           detached = None\<rparr>
      | (spec, None) \<Rightarrow>
          \<lparr>returned = (spec, None),
           logged = [Log DebugLevel ''Publishing result to IPFS''],
           detached = Some (pin_goroutine e spec)\<rparr>)"

section \<open>pkg/ipfs/http/httpclient.go\<close>

text \<open>
  \<open>ma.Multiaddr\<close> and the HTTP API of the storage daemon belong to other modules. An
  address is kept by what \<open>String()\<close> renders; the API is the two calls the client
  makes, \<open>Swarm().LocalAddrs\<close> and \<open>Key().Self\<close> (the latter already reduced to
  \<open>key.ID().String()\<close>), each with its Go result pair.
\<close>

datatype Multiaddr = Multiaddr (String: string)

record IPFSHttpClient =
  Swarm_LocalAddrs :: "Multiaddr list \<times> error option"
  Key_Self :: "string \<times> error option"

definition GetLocalAddrs :: "IPFSHttpClient \<Rightarrow> Multiaddr list \<times> error option" where
  "GetLocalAddrs ipfsHttp = Swarm_LocalAddrs ipfsHttp"

definition GetLocalAddrStrings :: "IPFSHttpClient \<Rightarrow> string list \<times> error option" where
  "GetLocalAddrStrings ipfsHttp =
     (case GetLocalAddrs ipfsHttp of
        (addrs, Some err) \<Rightarrow> ([], None)
      | (addrs, None) \<Rightarrow> (map String addrs, None))"

definition GetPeerId :: "IPFSHttpClient \<Rightarrow> string \<times> error option" where
  "GetPeerId ipfsHttp =
     (case Key_Self ipfsHttp of
        (key, Some err) \<Rightarrow> ('''', Some err)
      | (key, None) \<Rightarrow> (key, None))"

definition GetSwarmAddresses :: "IPFSHttpClient \<Rightarrow> string list \<times> error option" where
  "GetSwarmAddresses ipfsHttp =
     (case GetLocalAddrStrings ipfsHttp of
        (addresses, Some err) \<Rightarrow> ([], None)
      | (addresses, None) \<Rightarrow>
          (case GetPeerId ipfsHttp of
             (peerId, Some err) \<Rightarrow> ([], None)
           | (peerId, None) \<Rightarrow>
               (map (\<lambda>address. address @ ''/p2p/'' @ peerId) addresses, None)))"

section \<open>dashboard/api/main.go\<close>

record Node =
  ID :: string
  Group :: int

record Link =
  Source :: string
  Target :: string

record Result =
  Nodes :: "Node list"
  Links :: "Link list"

text \<open>
  A Go map is a finite set of entries with distinct keys, and \<open>range\<close> walks it in an
  order the language leaves open. The map is an association list whose order is the
  order of that walk; \<open>theMap[node]\<close> gives the nil slice for a key that is absent.
  Strings compare byte by byte, a proper prefix first, as \<open>sort.Strings\<close> does.
\<close>

type_synonym go_map = "(string \<times> string list) list"

definition range_keys :: "go_map \<Rightarrow> string list" where
  "range_keys theMap = foldl (\<lambda>keys (k, v). keys @ [k]) [] theMap"

definition index_map :: "go_map \<Rightarrow> string \<Rightarrow> string list" where
  "index_map theMap k = (case map_of theMap k of None \<Rightarrow> [] | Some v \<Rightarrow> v)"

fun append_links :: "string \<Rightarrow> string list \<Rightarrow> Result \<Rightarrow> Result" where
  "append_links node [] result = result"
| "append_links node (link # links) result =
     append_links node links
       (result\<lparr>Links := Links result @ [\<lparr>Source = node, Target = link\<rparr>]\<rparr>)"

fun add_nodes :: "go_map \<Rightarrow> string list \<Rightarrow> Result \<Rightarrow> Result" where
  "add_nodes theMap [] result = result"
| "add_nodes theMap (node # keys) result =
     add_nodes theMap keys
       (append_links node (index_map theMap node)
          (result\<lparr>Nodes := Nodes result @ [\<lparr>ID = node, Group = 0\<rparr>]\<rparr>))"

definition updateResult :: "go_map \<Rightarrow> Result" where
  "updateResult theMap =
     add_nodes theMap (sort (range_keys theMap)) \<lparr>Nodes = [], Links = []\<rparr>"

section \<open>pkg/publisher/estuary/publisher.go\<close>

subsection \<open>What the package takes from outside\<close>

text \<open>
  \<open>url.URL\<close> is a struct of the standard library; its zero value has every field empty.
\<close>

record URL =
  Scheme :: string
  Host :: string
  Path :: string

definition URL_zero :: URL where
  "URL_zero = \<lparr>Scheme = '''', Host = '''', Path = ''''\<rparr>"

record Request =
  Method :: string
  Target :: string

text \<open>
  A response body is an \<open>io.Reader\<close>: the bytes arrive in pieces, each piece with the
  error the reader reports along with it. \<open>Read\<close> with a buffer of \<open>n\<close> bytes hands out
  the next piece, or its first \<open>n\<close> bytes when it is longer, and \<open>EOF\<close> once nothing is
  left. It gives the bytes, the error and the reader that remains.
\<close>

type_synonym reader = "(string \<times> error option) list"

fun Read :: "reader \<Rightarrow> nat \<Rightarrow> (string \<times> error option) \<times> reader" where
  "Read [] n = (('''', Some ''EOF''), [])"
| "Read ((bytes, err) # rest) n =
     (if length bytes \<le> n then ((bytes, err), rest)
      else ((take n bytes, None), (drop n bytes, err) # rest))"

record Response =
  ContentLength :: int
  Body :: reader

record Settings_t =
  ContentAddingDisabled :: bool
  UploadEndpoints :: "string list"

record EstuaryAPIConfig =
  Settings :: Settings_t

text \<open>
  \<open>Client\<close> and \<open>ClientWithResponsesInterface\<close> come from the generated API client,
  which is not among the sources. A \<open>Client\<close> is its \<open>Server\<close> and the behaviour of
  \<open>Client.Do\<close> and \<open>applyEditors\<close>; a shuttle client is the server it was built for and
  the behaviour of \<open>PostContentAddCarWithBodyWithResponse\<close>, from the content type and
  the body to the status of the response and the error.
\<close>

record Client =
  Server :: string
  Client_Do :: "Request \<Rightarrow> error + Response"
  applyEditors :: "Request \<Rightarrow> error option"

record ClientWithResponses =
  ClientServer :: string
  PostContentAddCarWithBodyWithResponse :: "string \<Rightarrow> string \<Rightarrow> int \<times> error option"

record EstuaryPublisherConfig =
  APIKey :: string

record EstuaryPublisher =
  Config :: EstuaryPublisherConfig

text \<open>
  The process environment, the standard library and the packages of the repository that
  are not among the sources (\<open>pkg/ipfs/car\<close>, \<open>pkg/job\<close>, the generated client), each
  by the behaviour of the call made here. \<open>rand_draw n\<close> is what the generator gives
  when asked for a number below \<open>n\<close>; \<open>os_Open k\<close> is the \<open>k\<close>-th opening of a file,
  giving its content from the start.
\<close>

record lib =
  env :: "string \<rightharpoonup> string"
  url_Parse :: "string \<Rightarrow> error + URL"
  URL_String :: "URL \<Rightarrow> string"
  NewRequestWithContext :: "string \<Rightarrow> string \<Rightarrow> error + Request"
  json_Unmarshal :: "string \<Rightarrow> error + EstuaryAPIConfig"
  NewClient :: "string \<Rightarrow> string \<Rightarrow> error + Client"
  NewClientWithResponses :: "string \<Rightarrow> string \<Rightarrow> error + ClientWithResponses"
  rand_draw :: "nat \<Rightarrow> nat"
  MkdirTemp :: "error + string"
  CreateCar :: "string \<Rightarrow> string \<Rightarrow> error + string"
  os_Open :: "nat \<Rightarrow> string \<Rightarrow> error + string"
  GetPublishedStorageSpec :: "JobShard \<Rightarrow> StorageSourceType \<Rightarrow> string \<Rightarrow> string \<Rightarrow> StorageSpec"

definition Getenv :: "lib \<Rightarrow> string \<Rightarrow> string" where
  "Getenv l key = (case env l key of None \<Rightarrow> '''' | Some v \<Rightarrow> v)"

text \<open>The verb \<open>%d\<close> of \<open>fmt\<close> on a number that is not negative.\<close>

fun show_nat :: "nat \<Rightarrow> string" where
  "show_nat n =
     (if n < 10 then [''0123456789'' ! n]
      else show_nat (n div 10) @ [''0123456789'' ! (n mod 10)])"

declare show_nat.simps [simp del]

text \<open>
  \<open>rand.Shuffle\<close> of the standard library: from the last index down to 1, the element
  at \<open>i\<close> is swapped with the one at a drawn index \<open>j\<close> with \<open>0 \<le> j \<le> i\<close>. The swap is
  the closure of \<open>GetShuttleClients\<close>.
\<close>

definition swap :: "nat \<Rightarrow> nat \<Rightarrow> 'a list \<Rightarrow> 'a list" where
  "swap i j uploadURLs = uploadURLs[i := uploadURLs ! j, j := uploadURLs ! i]"

fun shuffle_down :: "(nat \<Rightarrow> nat) \<Rightarrow> nat \<Rightarrow> 'a list \<Rightarrow> 'a list" where
  "shuffle_down draw 0 xs = xs"
| "shuffle_down draw (Suc i) xs =
     shuffle_down draw i (swap (Suc i) (draw (Suc (Suc i)) mod Suc (Suc i)) xs)"

definition Shuffle :: "(nat \<Rightarrow> nat) \<Rightarrow> nat \<Rightarrow> 'a list \<Rightarrow> 'a list" where
  "Shuffle draw n xs = shuffle_down draw (n - 1) xs"

subsection \<open>Finding the upload hosts\<close>

definition gatewayEndpoint :: string where
  "gatewayEndpoint = ''https://api.estuary.tech''"

definition getGatewayURL :: "lib \<Rightarrow> string" where
  "getGatewayURL l =
     (let baseURL = Getenv l ''BACALHAU_ESTUARY_READ_API_URL''
      in if baseURL = '''' then gatewayEndpoint else baseURL)"

text \<open>
  The loop over \<open>config.Settings.UploadEndpoints\<close>: a string that does not parse is
  logged and passed over, a parsed one is appended to \<open>uploadURLs\<close>.
\<close>

fun parse_endpoints :: "lib \<Rightarrow> string list \<Rightarrow> URL list \<Rightarrow> event list \<times> URL list" where
  "parse_endpoints l [] uploadURLs = ([], uploadURLs)"
| "parse_endpoints l (server # rest) uploadURLs =
     (case url_Parse l server of
        Inl err \<Rightarrow>
          (case parse_endpoints l rest uploadURLs of
             (tr, urls) \<Rightarrow> (Log WarnLevel ''Estuary server URL malformed'' # tr, urls))
      | Inr parsedURL \<Rightarrow> parse_endpoints l rest (uploadURLs @ [parsedURL]))"

text \<open>
  The part of \<open>getWriteAPIURLs\<close> after \<open>client.Client.Do\<close> has answered: one \<open>Read\<close>
  into a buffer of \<open>ContentLength\<close> bytes (\<open>make\<close> panics on a negative length), the two
  checks on it, the parse, and the list, which starts as \<open>make([]url.URL, len(...))\<close>.
\<close>

definition read_config :: "lib \<Rightarrow> Response \<Rightarrow> event list \<times> (URL list \<times> error option) go" where
  "read_config l estuaryConfigResp =
     (if ContentLength estuaryConfigResp < 0 then ([], Panics ''runtime error: makeslice: len out of range'')
      else
        (case Read (Body estuaryConfigResp) (nat (ContentLength estuaryConfigResp)) of
           ((responseBody, Some err), rest) \<Rightarrow> ([], Returns ([], Some err))
         | ((responseBody, None), rest) \<Rightarrow>
             if int (length responseBody) \<noteq> ContentLength estuaryConfigResp
             then ([], Returns ([], Some (''read '' @ show_nat (length responseBody)
                      @ '' bytes but expected ''
                      @ show_nat (nat (ContentLength estuaryConfigResp)))))
             else
               (case json_Unmarshal l responseBody of
                  Inl err \<Rightarrow>
                    ([], Returns ([], Some (''error parsing Estuary config: '' @ err)))
                | Inr config \<Rightarrow>
                    if ContentAddingDisabled (Settings config)
                    then ([], Returns ([], Some
                           ''cannot upload content because Estuary uploads are disabled''))
                    else
                      (case parse_endpoints l (UploadEndpoints (Settings config))
                              (replicate (length (UploadEndpoints (Settings config))) URL_zero) of
                         (tr, uploadURLs) \<Rightarrow> (tr, Returns (uploadURLs, None))))))"

definition getWriteAPIURLs :: "lib \<Rightarrow> Client \<Rightarrow> event list \<times> (URL list \<times> error option) go" where
  "getWriteAPIURLs l client =
     (let baseURL = Getenv l ''BACALHAU_ESTUARY_WRITE_API_URL'' in
      if baseURL \<noteq> '''' then
        (case url_Parse l baseURL of
           Inl err \<Rightarrow>
             ([Log DebugLevel ''Using env-defined Estuary upload host''],
              Panics ''runtime error: invalid memory address or nil pointer dereference'')
         | Inr parsedURL \<Rightarrow>
             ([Log DebugLevel ''Using env-defined Estuary upload host''],
              Returns ([parsedURL], None)))
      else
        (case NewRequestWithContext l ''GET'' (Server client @ ''/viewier'') of
           Inl err \<Rightarrow> ([], Returns ([], Some err))
         | Inr req \<Rightarrow>
             (case applyEditors client req of
                Some err \<Rightarrow> ([], Returns ([], Some err))
              | None \<Rightarrow>
                  (case Client_Do client req of
                     Inl err \<Rightarrow>
                       ([HttpDo (Method req) (Target req)],
                        Returns ([], Some (''error trying to read Estuary config: '' @ err)))
                   | Inr estuaryConfigResp \<Rightarrow>
                       (case read_config l estuaryConfigResp of
                          (tr, r) \<Rightarrow> (HttpDo (Method req) (Target req) # tr, r))))))"

subsection \<open>Building the shuttle clients\<close>

fun build_clients ::
  "lib \<Rightarrow> string \<Rightarrow> URL list \<Rightarrow> ClientWithResponses list
     \<Rightarrow> ClientWithResponses list \<times> error option" where
  "build_clients l apiKey [] clients = (clients, None)"
| "build_clients l apiKey (url # rest) clients =
     (case NewClientWithResponses l (URL_String l url) apiKey of
        Inl err \<Rightarrow> ([], Some err)
      | Inr client \<Rightarrow> build_clients l apiKey rest (clients @ [client]))"

definition GetShuttleClients ::
  "lib \<Rightarrow> EstuaryPublisherConfig
     \<Rightarrow> event list \<times> (ClientWithResponses list \<times> error option) go" where
  "GetShuttleClients l config =
     (case NewClient l (getGatewayURL l) (APIKey config) of
        Inl err \<Rightarrow> ([], Returns ([], Some err))
      | Inr client \<Rightarrow>
          (case getWriteAPIURLs l client of
             (tr, Panics p) \<Rightarrow> (tr, Panics p)
           | (tr, Returns (uploadURLs, err)) \<Rightarrow>
               (case (if err = None \<and> length uploadURLs < 1
                      then Some ''no Estuary servers are available'' else err) of
                  Some err' \<Rightarrow> (tr, Returns ([], Some err'))
                | None \<Rightarrow>
                    (tr, Returns (build_clients l (APIKey config)
                           (Shuffle (rand_draw l) (length uploadURLs) uploadURLs) [])))))"

subsection \<open>Publishing a shard\<close>

definition StorageSpec_zero :: StorageSpec where
  "StorageSpec_zero = \<lparr>StorageSource = StorageSourceUnknown, Name = '''', CID = ''''\<rparr>"

text \<open>
  The loop of \<open>PublishShardResult\<close> over the shuttles; \<open>k\<close> counts the openings of the
  CAR file so far. The response of the POST is dropped: only its error is looked at.
\<close>

fun try_shuttles ::
  "lib \<Rightarrow> JobShard \<Rightarrow> string \<Rightarrow> string \<Rightarrow> string \<Rightarrow> nat \<Rightarrow> ClientWithResponses list
     \<Rightarrow> event list \<times> (StorageSpec \<times> error option)" where
  "try_shuttles l shard hostID cid carFile k [] =
     ([], (StorageSpec_zero, Some ''failed to upload to any Estuary host''))"
| "try_shuttles l shard hostID cid carFile k (client # rest) =
     (case os_Open l k carFile of
        Inl err \<Rightarrow> ([OpenFile carFile], (StorageSpec_zero, Some err))
      | Inr fileReader \<Rightarrow>
          (case PostContentAddCarWithBodyWithResponse client ''multipart/form-data'' fileReader of
             (status, Some err) \<Rightarrow>
               (case try_shuttles l shard hostID cid carFile (Suc k) rest of
                  (tr, r) \<Rightarrow>
                    ([OpenFile carFile, PostContentAddCar (ClientServer client),
                      Log ErrorLevel ''failed to upload to Estuary host''] @ tr, r))
           | (status, None) \<Rightarrow>
               ([OpenFile carFile, PostContentAddCar (ClientServer client)],
                (GetPublishedStorageSpec l shard StorageSourceEstuary hostID cid, None))))"

definition PublishShardResult ::
  "lib \<Rightarrow> EstuaryPublisher \<Rightarrow> JobShard \<Rightarrow> string \<Rightarrow> string
     \<Rightarrow> event list \<times> (StorageSpec \<times> error option) go" where
  "PublishShardResult l estuaryPublisher shard hostID shardResultPath =
     (case MkdirTemp l of
        Inl err \<Rightarrow>
          ([Log InfoLevel ''Publishing shard results to Estuary''],
           Returns (StorageSpec_zero, Some err))
      | Inr tempDir \<Rightarrow>
          (let carFile = tempDir @ ''/results.car'' in
           case CreateCar l shardResultPath carFile of
             Inl err \<Rightarrow>
               ([Log InfoLevel ''Publishing shard results to Estuary''],
                Returns (StorageSpec_zero, Some err))
           | Inr cid \<Rightarrow>
               (case GetShuttleClients l (Config estuaryPublisher) of
                  (tr, Panics p) \<Rightarrow>
                    (Log InfoLevel ''Publishing shard results to Estuary'' # tr, Panics p)
                | (tr, Returns (shuttles, Some err)) \<Rightarrow>
                    (Log InfoLevel ''Publishing shard results to Estuary'' # tr,
                     Returns (StorageSpec_zero, Some err))
                | (tr, Returns (shuttles, None)) \<Rightarrow>
                    (case try_shuttles l shard hostID cid carFile 0 shuttles of
                       (tr', r) \<Rightarrow>
                         (Log InfoLevel ''Publishing shard results to Estuary'' # tr @ tr',
                          Returns r)))))"

subsection \<open>A sample environment\<close>

text \<open>
  Concrete behaviour for the outside, used where a result is computed on an input: a
  gateway at \<open>gatewayEndpoint\<close> whose configuration names two shuttles and one string
  that does not parse, a parser that accepts \<open>https\<close> hosts, and shuttles that answer 200.
\<close>

definition sample_body :: string where
  \<open>sample_body = ''{"settings":{"uploadEndpoints":["https://shuttle-4.estuary.tech","://bad","https://shuttle-5.estuary.tech"]}}''\<close>

definition sample_config :: EstuaryAPIConfig where
  "sample_config =
     \<lparr>Settings = \<lparr>ContentAddingDisabled = False,
        UploadEndpoints =
          [''https://shuttle-4.estuary.tech'', ''://bad'', ''https://shuttle-5.estuary.tech'']\<rparr>\<rparr>"

definition sample_parse :: "string \<Rightarrow> error + URL" where
  "sample_parse s =
     (if take 8 s = ''https://'' then Inr \<lparr>Scheme = ''https'', Host = drop 8 s, Path = ''''\<rparr>
      else Inl ''missing protocol scheme'')"

definition sample_string :: "URL \<Rightarrow> string" where
  "sample_string u = (if u = URL_zero then '''' else Scheme u @ ''://'' @ Host u @ Path u)"

definition sample_client :: Client where
  "sample_client =
     \<lparr>Server = gatewayEndpoint,
      Client_Do = (\<lambda>req. Inr \<lparr>ContentLength = int (length sample_body),
                              Body = [(sample_body, None)]\<rparr>),
      applyEditors = (\<lambda>req. None)\<rparr>"

definition sample_shuttle :: "string \<Rightarrow> int \<Rightarrow> ClientWithResponses" where
  "sample_shuttle server status =
     \<lparr>ClientServer = server,
      PostContentAddCarWithBodyWithResponse = (\<lambda>contentType body. (status, None))\<rparr>"

definition sample_lib :: lib where
  "sample_lib =
     \<lparr>env = Map.empty,
      url_Parse = sample_parse,
      URL_String = sample_string,
      NewRequestWithContext = (\<lambda>method url. Inr \<lparr>Method = method, Target = url\<rparr>),
      json_Unmarshal = (\<lambda>body. if body = sample_body then Inr sample_config
                                 else Inl ''invalid character''),
      NewClient = (\<lambda>server apiKey. Inr (sample_client\<lparr>Server := server\<rparr>)),
      NewClientWithResponses = (\<lambda>server apiKey. Inr (sample_shuttle server 200)),
      rand_draw = (\<lambda>n. 0),
      MkdirTemp = Inr ''/tmp/bacalhau-estuary-publisher1'',
      CreateCar = (\<lambda>shardResultPath carFile. Inr ''bafybeigdyrzt''),
      os_Open = (\<lambda>k name. Inr ''car''),
      GetPublishedStorageSpec = (\<lambda>shard source hostID cid.
         \<lparr>StorageSource = source, Name = ''job-'' @ JobID shard @ ''-host-'' @ hostID,
          CID = cid\<rparr>)\<rparr>"

section \<open>Results\<close>

subsection \<open>The pin sidecar\<close>

text \<open>
  C1. A publish whose spec has an empty cid should make the pin task log at Error level
  and issue no pinning POST. Here the primary publish succeeds with an empty cid: the
  task logs the Error line and then issues the POST with the empty cid all the same.
\<close>

theorem C1_empty_cid_is_posted:
  "detached (Pinner_PublishShardResult
      \<lparr>ipfsPublisher = (\<lambda>shard hostID path.
          (\<lparr>StorageSource = StorageSourceIPFS, Name = ''job-j1-shard-0-host-h1'', CID = ''''\<rparr>, None)),
       apiClient = (\<lambda>cid name. (Some 202, None))\<rparr>
      \<lparr>JobID = ''j1'', Index = 0\<rparr> ''h1'' ''/tmp/results'')
   = Some ([Log ErrorLevel ''Spec did not contain a CID or name to pin to Estuary'',
            PostPinningPins '''' ''job-j1-shard-0-host-h1'',
            Log InfoLevel ''Attempted to pin to Estuary''], Returns ())"
  by (simp add: Pinner_PublishShardResult_def pin_goroutine_def StatusAccepted_def)

text \<open>
  The pair the decorator returns is the pair of the inner publisher, on both branches,
  and a goroutine is left behind exactly when the inner error is nil.
\<close>

lemma Pinner_returns_inner_pair:
  "returned (Pinner_PublishShardResult e shard hostID path) = ipfsPublisher e shard hostID path
   \<and> (detached (Pinner_PublishShardResult e shard hostID path) = None)
       = (snd (ipfsPublisher e shard hostID path) \<noteq> None)"
  by (cases "ipfsPublisher e shard hostID path")
     (auto simp: Pinner_PublishShardResult_def split: option.splits)


subsection \<open>Swarm addresses\<close>

lemma GetLocalAddrStrings_nil: "snd (GetLocalAddrStrings c) = None"
  by (cases "Swarm_LocalAddrs c")
     (simp add: GetLocalAddrStrings_def GetLocalAddrs_def split: option.splits)

lemma GetSwarmAddresses_nil: "snd (GetSwarmAddresses c) = None"
  by (simp add: GetSwarmAddresses_def split: prod.splits option.splits)

text \<open>
  C9. Neither \<open>GetLocalAddrStrings\<close> nor \<open>GetSwarmAddresses\<close> ever returns an error.
  When the swarm lookup or the key lookup fails, the list collected so far is returned,
  which is empty at both failure points, with a nil error: the very pair a node without
  addresses gives.
\<close>

theorem C9_lookups_never_return_error:
  "snd (GetLocalAddrStrings c) = None
   \<and> snd (GetSwarmAddresses c) = None
   \<and> GetLocalAddrStrings (c\<lparr>Swarm_LocalAddrs := (addrs, Some err)\<rparr>) = ([], None)
   \<and> GetSwarmAddresses (c\<lparr>Swarm_LocalAddrs := (addrs, Some err)\<rparr>) = ([], None)
   \<and> GetSwarmAddresses (c\<lparr>Key_Self := (key, Some err)\<rparr>) = ([], None)
   \<and> GetLocalAddrStrings (c\<lparr>Swarm_LocalAddrs := ([], None)\<rparr>) = ([], None)
   \<and> GetSwarmAddresses (c\<lparr>Swarm_LocalAddrs := ([], None)\<rparr>) = ([], None)"
proof -
  have key: "GetSwarmAddresses (c\<lparr>Key_Self := (key, Some err)\<rparr>) = ([], None)"
    by (simp add: GetSwarmAddresses_def GetPeerId_def split: prod.splits option.splits)
  have addrs: "GetSwarmAddresses (c\<lparr>Swarm_LocalAddrs := (addrs, Some err)\<rparr>) = ([], None)"
    by (simp add: GetSwarmAddresses_def GetLocalAddrStrings_def GetLocalAddrs_def
        split: prod.splits option.splits)
  have none: "GetSwarmAddresses (c\<lparr>Swarm_LocalAddrs := ([], None)\<rparr>) = ([], None)"
    by (simp add: GetSwarmAddresses_def GetLocalAddrStrings_def GetLocalAddrs_def
        split: prod.splits option.splits)
  show ?thesis
    using key addrs none GetLocalAddrStrings_nil [of c] GetSwarmAddresses_nil [of c]
    by (simp add: GetLocalAddrStrings_def GetLocalAddrs_def)
qed

subsection \<open>The dashboard graph\<close>

lemma range_keys_eq: "range_keys m = map fst m"
proof -
  have "foldl (\<lambda>keys (k, v). keys @ [k]) acc m = acc @ map fst m" for acc :: "string list"
    by (induction m arbitrary: acc) (auto split: prod.splits)
  then show ?thesis by (simp add: range_keys_def)
qed

lemma append_links_eq:
  "append_links node links r =
     r\<lparr>Links := Links r @ map (\<lambda>link. \<lparr>Source = node, Target = link\<rparr>) links\<rparr>"
  by (induction links arbitrary: r) simp_all

lemma add_nodes_eq:
  "add_nodes m keys r =
     \<lparr>Nodes = Nodes r @ map (\<lambda>k. \<lparr>ID = k, Group = 0\<rparr>) keys,
      Links = Links r @ concat (map (\<lambda>k. map (\<lambda>link. \<lparr>Source = k, Target = link\<rparr>) (index_map m k)) keys)\<rparr>"
  by (induction keys arbitrary: r) (simp_all add: append_links_eq)

lemma updateResult_eq:
  "updateResult m =
     \<lparr>Nodes = map (\<lambda>k. \<lparr>ID = k, Group = 0\<rparr>) (sort (map fst m)),
      Links = concat (map (\<lambda>k. map (\<lambda>link. \<lparr>Source = k, Target = link\<rparr>) (index_map m k))
                (sort (map fst m)))\<rparr>"
  by (simp add: updateResult_def add_nodes_eq range_keys_eq)

lemma sort_same_keys:
  fixes xs ys :: "string list"
  assumes "distinct xs" "distinct ys" "set xs = set ys"
  shows "sort xs = sort ys"
  using assms by (metis distinct_remdups_id sorted_list_of_set_sort_remdups)

lemma index_map_same:
  assumes "distinct (map fst m)" "distinct (map fst m')" "set m = set m'"
  shows "index_map m k = index_map m' k"
proof -
  have "map_of m = map_of m'"
    using assms by (simp add: map_of_inject_set)
  then show ?thesis by (simp add: index_map_def)
qed

text \<open>
  C10. Whatever order \<open>range\<close> walks the map in, \<open>updateResult\<close> gives the same result:
  two walks of the same entries (distinct keys, as in any map) yield equal results. The
  nodes are the keys in ascending order, one node per key, all of group 0, and the links
  are, node by node in that order, the targets of the node's entry in their stored order.
\<close>

theorem C10_updateResult_independent_of_iteration_order:
  assumes "distinct (map fst theMap)" and "distinct (map fst other)" and "set other = set theMap"
  shows "updateResult other = updateResult theMap
    \<and> map ID (Nodes (updateResult theMap)) = sort (map fst theMap)
    \<and> sorted (map ID (Nodes (updateResult theMap)))
    \<and> distinct (map ID (Nodes (updateResult theMap)))
    \<and> set (map ID (Nodes (updateResult theMap))) = fst ` set theMap
    \<and> map Group (Nodes (updateResult theMap)) = replicate (length theMap) 0
    \<and> Links (updateResult theMap) =
        concat (map (\<lambda>n. map (\<lambda>link. \<lparr>Source = ID n, Target = link\<rparr>) (index_map theMap (ID n)))
                 (Nodes (updateResult theMap)))"
proof -
  have keys: "sort (map fst other) = sort (map fst theMap)"
    using assms by (intro sort_same_keys) (auto simp: image_def)
  have idx: "index_map other = index_map theMap"
    using assms by (intro ext index_map_same) auto
  have same: "updateResult other = updateResult theMap"
    by (simp add: updateResult_eq keys idx)
  have ids: "map ID (Nodes (updateResult theMap)) = sort (map fst theMap)"
    by (simp add: updateResult_eq comp_def)
  have grp: "map Group (Nodes (updateResult theMap)) = replicate (length theMap) 0"
    by (simp add: updateResult_eq comp_def map_replicate_const)
  have links: "Links (updateResult theMap) =
        concat (map (\<lambda>n. map (\<lambda>link. \<lparr>Source = ID n, Target = link\<rparr>) (index_map theMap (ID n)))
                 (Nodes (updateResult theMap)))"
    by (simp add: updateResult_eq comp_def)
  show ?thesis
    using same ids grp links assms(1) by simp
qed

theorem C10_updateResult_witness:
  "distinct (map fst [(''b'', [''a'']), (''a'', [''c'', ''b''])])
   \<and> distinct (map fst [(''a'', [''c'', ''b'']), (''b'', [''a''])])
   \<and> set [(''a'', [''c'', ''b'']), (''b'', [''a''])] = set [(''b'', [''a'']), (''a'', [''c'', ''b''])]
   \<and> updateResult [(''a'', [''c'', ''b'']), (''b'', [''a''])]
      = updateResult [(''b'', [''a'']), (''a'', [''c'', ''b''])]
   \<and> map ID (Nodes (updateResult [(''b'', [''a'']), (''a'', [''c'', ''b''])])) = [''a'', ''b'']
   \<and> Links (updateResult [(''b'', [''a'']), (''a'', [''c'', ''b''])])
      = [\<lparr>Source = ''a'', Target = ''c''\<rparr>, \<lparr>Source = ''a'', Target = ''b''\<rparr>,
         \<lparr>Source = ''b'', Target = ''a''\<rparr>]"
proof -
  have d1: "distinct (map fst [(''b'', [''a'']), (''a'', [''c'', ''b''])])" by simp
  have d2: "distinct (map fst [(''a'', [''c'', ''b'']), (''b'', [''a''])])" by simp
  have s: "set [(''a'', [''c'', ''b'']), (''b'', [''a''])] = set [(''b'', [''a'']), (''a'', [''c'', ''b''])]"
    by auto
  have srt: "sort [''b'', ''a''] = [''a'', ''b'']" by code_simp
  have ur: "updateResult [(''b'', [''a'']), (''a'', [''c'', ''b''])]
      = \<lparr>Nodes = [\<lparr>ID = ''a'', Group = 0\<rparr>, \<lparr>ID = ''b'', Group = 0\<rparr>],
         Links = [\<lparr>Source = ''a'', Target = ''c''\<rparr>, \<lparr>Source = ''a'', Target = ''b''\<rparr>,
                  \<lparr>Source = ''b'', Target = ''a''\<rparr>]\<rparr>"
    by (simp add: updateResult_def range_keys_def srt index_map_def)
  have "updateResult [(''a'', [''c'', ''b'']), (''b'', [''a''])]
      = updateResult [(''b'', [''a'']), (''a'', [''c'', ''b''])]"
    using C10_updateResult_independent_of_iteration_order [OF d1 d2 s] by blast
  then show ?thesis
    using d1 d2 s ur by simp
qed

subsection \<open>The upload hosts\<close>

text \<open>
  C3. The list of upload URLs should hold the parsed endpoints and nothing else. With
  the sample gateway, whose configuration names two hosts and one malformed string, the
  malformed string is logged and passed over, but the list starts with three zero-valued
  URLs, one for each configured endpoint: it is made with that length and then appended
  to.
\<close>

theorem C3_zero_entries_lead_the_list:
  "getWriteAPIURLs sample_lib sample_client =
     ([HttpDo ''GET'' ''https://api.estuary.tech/viewier'',
       Log WarnLevel ''Estuary server URL malformed''],
      Returns ([URL_zero, URL_zero, URL_zero,
                \<lparr>Scheme = ''https'', Host = ''shuttle-4.estuary.tech'', Path = ''''\<rparr>,
                \<lparr>Scheme = ''https'', Host = ''shuttle-5.estuary.tech'', Path = ''''\<rparr>], None))"
  by code_simp

text \<open>
  C4. Without the override, the configuration should be fetched with a GET of
  \<open>/viewer\<close>, the endpoint the comment on \<open>EstuaryAPIConfig\<close> names. Against a gateway
  that serves the configuration at \<open>/viewer\<close> and a 404 page elsewhere, the one request
  made goes to \<open>/viewier\<close> and the call fails on the 404 page.
\<close>

theorem C4_config_request_goes_to_viewier:
  "getWriteAPIURLs sample_lib
     (sample_client\<lparr>Client_Do := (\<lambda>req.
         if Target req = ''https://api.estuary.tech/viewer''
         then Inr \<lparr>ContentLength = int (length sample_body), Body = [(sample_body, None)]\<rparr>
         else Inr \<lparr>ContentLength = 18, Body = [(''404 page not found'', None)]\<rparr>)\<rparr>)
   = ([HttpDo ''GET'' ''https://api.estuary.tech/viewier''],
      Returns ([], Some ''error parsing Estuary config: invalid character''))"
  by code_simp

text \<open>
  C8. The body of the configuration response should be read in full, however the
  reader splits it. Here the 109 bytes of the sample body arrive as 40 and then 69: the
  single \<open>Read\<close> gets 40 and the call fails. It fails as well when the reader hands out
  all 109 bytes together with \<open>EOF\<close>, as a reader may.
\<close>

theorem C8_short_read_fails:
  "getWriteAPIURLs sample_lib
     (sample_client\<lparr>Client_Do := (\<lambda>req. Inr \<lparr>ContentLength = int (length sample_body),
          Body = [(take 40 sample_body, None), (drop 40 sample_body, None)]\<rparr>)\<rparr>)
   = ([HttpDo ''GET'' ''https://api.estuary.tech/viewier''],
      Returns ([], Some ''read 40 bytes but expected 109''))
   \<and> getWriteAPIURLs sample_lib
     (sample_client\<lparr>Client_Do := (\<lambda>req. Inr \<lparr>ContentLength = int (length sample_body),
          Body = [(sample_body, Some ''EOF'')]\<rparr>)\<rparr>)
   = ([HttpDo ''GET'' ''https://api.estuary.tech/viewier''], Returns ([], Some ''EOF''))"
  by code_simp

text \<open>
  C6. When \<open>BACALHAU_ESTUARY_WRITE_API_URL\<close> is set (to a string that is not empty,
  which is all \<open>os.Getenv\<close> can tell) and the string parses, \<open>getWriteAPIURLs\<close>
  returns that one URL and a nil error, and its trace has the debug line only: no
  request is made.
\<close>

theorem C6_env_override_single_url:
  assumes "env l ''BACALHAU_ESTUARY_WRITE_API_URL'' = Some baseURL"
      and "baseURL \<noteq> ''''"
      and "url_Parse l baseURL = Inr parsedURL"
  shows "getWriteAPIURLs l client =
           ([Log DebugLevel ''Using env-defined Estuary upload host''], Returns ([parsedURL], None))
       \<and> (\<forall>method url. HttpDo method url \<notin> set (fst (getWriteAPIURLs l client)))"
  using assms by (simp add: getWriteAPIURLs_def Getenv_def)

theorem C6_env_override_witness:
  "env (sample_lib\<lparr>env := [''BACALHAU_ESTUARY_WRITE_API_URL'' \<mapsto> ''https://shuttle-9.estuary.tech'']\<rparr>)
       ''BACALHAU_ESTUARY_WRITE_API_URL'' = Some ''https://shuttle-9.estuary.tech''
   \<and> ''https://shuttle-9.estuary.tech'' \<noteq> ''''
   \<and> url_Parse (sample_lib\<lparr>env := [''BACALHAU_ESTUARY_WRITE_API_URL'' \<mapsto> ''https://shuttle-9.estuary.tech'']\<rparr>)
         ''https://shuttle-9.estuary.tech''
       = Inr \<lparr>Scheme = ''https'', Host = ''shuttle-9.estuary.tech'', Path = ''''\<rparr>
   \<and> getWriteAPIURLs
        (sample_lib\<lparr>env := [''BACALHAU_ESTUARY_WRITE_API_URL'' \<mapsto> ''https://shuttle-9.estuary.tech'']\<rparr>)
        sample_client
       = ([Log DebugLevel ''Using env-defined Estuary upload host''],
          Returns ([\<lparr>Scheme = ''https'', Host = ''shuttle-9.estuary.tech'', Path = ''''\<rparr>], None))"
proof -
  let ?l = "sample_lib\<lparr>env := [''BACALHAU_ESTUARY_WRITE_API_URL'' \<mapsto> ''https://shuttle-9.estuary.tech'']\<rparr>"
  have h1: "env ?l ''BACALHAU_ESTUARY_WRITE_API_URL'' = Some ''https://shuttle-9.estuary.tech''"
    by simp
  have h2: "''https://shuttle-9.estuary.tech'' \<noteq> ''''" by simp
  have h3: "url_Parse ?l ''https://shuttle-9.estuary.tech''
       = Inr \<lparr>Scheme = ''https'', Host = ''shuttle-9.estuary.tech'', Path = ''''\<rparr>"
    by (simp add: sample_lib_def sample_parse_def)
  from C6_env_override_single_url [OF h1 h2 h3, of sample_client] h1 h2 h3 show ?thesis by blast
qed

subsection \<open>The shuffle\<close>

lemma length_swap: "length (swap i j xs) = length xs"
  by (simp add: swap_def)

lemma mset_swap_urls: "i < length xs \<Longrightarrow> j < length xs \<Longrightarrow> mset (swap i j xs) = mset xs"
  unfolding swap_def by (simp add: mset_swap)

lemma mset_shuffle_down: "i < length xs \<Longrightarrow> mset (shuffle_down draw i xs) = mset xs"
proof (induction i arbitrary: xs)
  case 0
  then show ?case by simp
next
  case (Suc i)
  have j: "draw (Suc (Suc i)) mod Suc (Suc i) < length xs"
    using Suc.prems by (meson less_trans_Suc mod_less_divisor not_less_eq zero_less_Suc less_le_trans Suc_leI)
  have "mset (shuffle_down draw i (swap (Suc i) (draw (Suc (Suc i)) mod Suc (Suc i)) xs))
      = mset (swap (Suc i) (draw (Suc (Suc i)) mod Suc (Suc i)) xs)"
    using Suc.prems by (intro Suc.IH) (simp add: length_swap)
  also have "\<dots> = mset xs"
    using Suc.prems j by (rule mset_swap_urls)
  finally show ?case by simp
qed

lemma mset_Shuffle: "mset (Shuffle draw (length xs) xs) = mset xs"
proof (cases xs)
  case Nil
  then show ?thesis by (simp add: Shuffle_def)
next
  case (Cons x rest)
  then have "length xs - 1 < length xs" by simp
  then show ?thesis unfolding Shuffle_def by (rule mset_shuffle_down)
qed

lemma build_clients_acc:
  "build_clients l k urls acc = (clients, None) \<Longrightarrow>
     map Inr clients = map Inr acc @ map (\<lambda>u. NewClientWithResponses l (URL_String l u) k) urls"
proof (induction urls arbitrary: acc)
  case Nil
  then show ?case by simp
next
  case (Cons u urls)
  show ?case
  proof (cases "NewClientWithResponses l (URL_String l u) k")
    case (Inl err)
    with Cons.prems show ?thesis by simp
  next
    case (Inr c)
    with Cons.prems have "build_clients l k urls (acc @ [c]) = (clients, None)" by simp
    from Cons.IH [OF this] Inr show ?thesis by simp
  qed
qed

lemma length_shuffle_down: "length (shuffle_down draw i xs) = length xs"
  by (induction i arbitrary: xs) (simp_all add: length_swap)

lemma nth_swap_first: "i < length xs \<Longrightarrow> j < length xs \<Longrightarrow> swap i j xs ! i = xs ! j"
  by (cases "i = j") (simp_all add: swap_def)

lemma nth_swap_other: "k \<noteq> i \<Longrightarrow> k \<noteq> j \<Longrightarrow> swap i j xs ! k = xs ! k"
  by (simp add: swap_def)

lemma shuffle_down_above:
  "i < k \<Longrightarrow> shuffle_down draw i xs ! k = xs ! k"
proof (induction i arbitrary: xs)
  case 0
  then show ?case by simp
next
  case (Suc i)
  let ?j = "draw (Suc (Suc i)) mod Suc (Suc i)"
  have j: "?j < Suc (Suc i)" by simp
  have "shuffle_down draw i (swap (Suc i) ?j xs) ! k = swap (Suc i) ?j xs ! k"
    using Suc.prems by (intro Suc.IH) simp
  also have "\<dots> = xs ! k"
    using Suc.prems j by (intro nth_swap_other) linarith+
  finally show ?case by simp
qed

lemma last_Shuffle:
  assumes "xs \<noteq> []"
  shows "last (Shuffle draw (length xs) xs) = xs ! (draw (length xs) mod length xs)"
proof (cases "length xs - 1")
  case 0
  with assms have "length xs = 1" by (cases xs) simp_all
  then show ?thesis
    by (cases xs) (simp_all add: Shuffle_def)
next
  case (Suc i)
  then have n: "length xs = Suc (Suc i)" by simp
  let ?j = "draw (Suc (Suc i)) mod Suc (Suc i)"
  have j: "?j < length xs" using n by simp
  have ne: "shuffle_down draw (Suc i) xs \<noteq> []"
    using assms length_shuffle_down [of draw "Suc i" xs] by (metis length_0_conv)
  have "last (shuffle_down draw (Suc i) xs) = shuffle_down draw (Suc i) xs ! Suc i"
    using ne n by (simp add: last_conv_nth length_shuffle_down length_swap)
  also have "\<dots> = shuffle_down draw i (swap (Suc i) ?j xs) ! Suc i" by simp
  also have "\<dots> = swap (Suc i) ?j xs ! Suc i" by (rule shuffle_down_above) simp
  also have "\<dots> = xs ! ?j" using n j by (intro nth_swap_first) simp_all
  finally show ?thesis by (simp add: Shuffle_def Suc n)
qed

lemma shuffle_down_cong:
  "(\<And>k. k \<le> Suc i \<Longrightarrow> d k = d' k) \<Longrightarrow> shuffle_down d i xs = shuffle_down d' i xs"
proof (induction i arbitrary: xs)
  case 0
  then show ?case by simp
next
  case (Suc i)
  have "d (Suc (Suc i)) = d' (Suc (Suc i))" by (rule Suc.prems) simp
  moreover have "shuffle_down d i ys = shuffle_down d' i ys" for ys :: "'a list"
    by (rule Suc.IH) (simp add: Suc.prems)
  ultimately show ?case by simp
qed

lemma take_swap: "i < n \<Longrightarrow> j < n \<Longrightarrow> take n (swap i j xs) = swap i j (take n xs)"
  by (simp add: swap_def take_update_swap)

lemma drop_swap: "i < n \<Longrightarrow> j < n \<Longrightarrow> drop n (swap i j xs) = drop n xs"
  by (simp add: swap_def)

lemma shuffle_down_reaches:
  "i < length xs \<Longrightarrow> length ys = length xs \<Longrightarrow>
   mset (take (Suc i) ys) = mset (take (Suc i) xs) \<Longrightarrow> drop (Suc i) ys = drop (Suc i) xs \<Longrightarrow>
   \<exists>draw. shuffle_down draw i xs = ys"
proof (induction i arbitrary: xs)
  case 0
  then have "take 1 ys = take 1 xs"
    by (cases xs; cases ys) simp_all
  with 0 have "ys = xs"
    by (metis One_nat_def append_take_drop_id)
  then show ?case by simp
next
  case (Suc i)
  let ?n = "Suc (Suc i)"
  have ly: "Suc i < length ys" using Suc.prems by simp
  have "ys ! Suc i \<in> set (take ?n ys)"
    using ly by (simp add: in_set_conv_nth) (metis lessI min.absorb2 Suc_leI nth_take length_take less_Suc_eq_le min_def)
  then have "ys ! Suc i \<in> set (take ?n xs)"
    using Suc.prems(3) by (metis set_mset_mset)
  then obtain j where j: "j < ?n" "j < length xs" "xs ! j = ys ! Suc i"
    by (auto simp: in_set_conv_nth)
  let ?xs = "swap (Suc i) j xs"
  have len: "length ?xs = length xs" by (simp add: length_swap)
  have at: "?xs ! Suc i = ys ! Suc i"
    using Suc.prems(1) j nth_swap_first [of "Suc i" xs j] by simp
  have tk: "mset (take ?n ?xs) = mset (take ?n xs)"
    using Suc.prems(1) j by (simp add: take_swap mset_swap_urls)
  have sx: "take ?n ?xs = take (Suc i) ?xs @ [ys ! Suc i]"
    using Suc.prems(1) len at by (metis take_Suc_conv_app_nth)
  have sy: "take ?n ys = take (Suc i) ys @ [ys ! Suc i]"
    using ly by (rule take_Suc_conv_app_nth)
  have "mset (take ?n ys) = mset (take ?n ?xs)"
    using tk Suc.prems(3) by simp
  then have m: "mset (take (Suc i) ys) = mset (take (Suc i) ?xs)"
    unfolding sx sy by simp
  have dx: "drop (Suc i) ?xs = ys ! Suc i # drop ?n xs"
    using Suc.prems(1) len at j drop_swap [of "Suc i" ?n j xs]
    by (metis Cons_nth_drop_Suc lessI)
  have dy: "drop (Suc i) ys = ys ! Suc i # drop ?n ys"
    using ly by (simp add: Cons_nth_drop_Suc)
  have d: "drop (Suc i) ys = drop (Suc i) ?xs"
    using dx dy Suc.prems(4) by simp
  have "i < length ?xs" using Suc.prems(1) len by simp
  moreover have "length ys = length ?xs" using Suc.prems(2) len by simp
  ultimately obtain d' where d': "shuffle_down d' i ?xs = ys"
    using Suc.IH [of ?xs] m d by blast
  let ?d = "d'(?n := j)"
  have "shuffle_down ?d (Suc i) xs = shuffle_down ?d i ?xs"
    using j by simp
  also have "\<dots> = shuffle_down d' i ?xs"
    by (rule shuffle_down_cong) simp
  finally show ?case using d' by blast
qed

lemma Shuffle_reaches:
  assumes "mset ys = mset xs"
  shows "\<exists>draw. Shuffle draw (length xs) xs = ys"
proof (cases xs)
  case Nil
  with assms show ?thesis by (simp add: Shuffle_def)
next
  case (Cons x rest)
  have l: "length ys = length xs" using assms by (metis size_mset)
  have "\<exists>draw. shuffle_down draw (length xs - 1) xs = ys"
    using Cons l assms by (intro shuffle_down_reaches) simp_all
  then show ?thesis by (simp add: Shuffle_def)
qed

lemma parse_endpoints_draw:
  "parse_endpoints (l\<lparr>rand_draw := d\<rparr>) endpoints acc = parse_endpoints l endpoints acc"
  by (induction endpoints arbitrary: acc) (simp_all split: sum.splits)

lemma read_config_draw:
  "read_config (l\<lparr>rand_draw := d\<rparr>) resp = read_config l resp"
  by (simp add: read_config_def parse_endpoints_draw
      cong: sum.case_cong option.case_cong prod.case_cong if_cong)

lemma getWriteAPIURLs_draw:
  "getWriteAPIURLs (l\<lparr>rand_draw := d\<rparr>) client = getWriteAPIURLs l client"
  by (simp add: getWriteAPIURLs_def read_config_draw Getenv_def Let_def
      cong: sum.case_cong option.case_cong prod.case_cong if_cong)

lemma build_clients_draw:
  "build_clients (l\<lparr>rand_draw := d\<rparr>) k urls acc = build_clients l k urls acc"
  by (induction urls arbitrary: acc) (simp_all split: sum.splits)

lemma GetShuttleClients_shuffled:
  assumes "NewClient l (getGatewayURL l) (APIKey config) = Inr client"
      and "getWriteAPIURLs l client = (tr, Returns (uploadURLs, None))"
      and "uploadURLs \<noteq> []"
  shows "GetShuttleClients (l\<lparr>rand_draw := d\<rparr>) config =
           (tr, Returns (build_clients l (APIKey config)
                  (Shuffle d (length uploadURLs) uploadURLs) []))"
proof -
  have gw: "getGatewayURL (l\<lparr>rand_draw := d\<rparr>) = getGatewayURL l"
    by (simp add: getGatewayURL_def Getenv_def)
  show ?thesis
    using assms
    by (simp add: GetShuttleClients_def gw getWriteAPIURLs_draw build_clients_draw)
qed

text \<open>
  C5. On a call of \<open>GetShuttleClients\<close> that succeeds, the clients are built, in order,
  from the shuffled list, one client per URL, and the shuffled list is a permutation of
  the list \<open>getWriteAPIURLs\<close> returned. The order is the generator's: the URL that
  ends in the last place is the one the first draw of the call picks, and for every
  order of the fetched URLs there are draws under which the call builds its clients in
  that order.
\<close>

theorem C5_shuffle_is_permutation:
  assumes "NewClient l (getGatewayURL l) (APIKey config) = Inr client"
      and "getWriteAPIURLs l client = (tr, Returns (uploadURLs, None))"
      and "GetShuttleClients l config = (tr', Returns (clients, None))"
  shows "mset (Shuffle (rand_draw l) (length uploadURLs) uploadURLs) = mset uploadURLs
       \<and> map Inr clients =
           map (\<lambda>u. NewClientWithResponses l (URL_String l u) (APIKey config))
             (Shuffle (rand_draw l) (length uploadURLs) uploadURLs)
       \<and> length clients = length uploadURLs
       \<and> last (Shuffle (rand_draw l) (length uploadURLs) uploadURLs)
           = uploadURLs ! (rand_draw l (length uploadURLs) mod length uploadURLs)
       \<and> (\<forall>ys. mset ys = mset uploadURLs \<longrightarrow>
            (\<exists>draw. Shuffle draw (length uploadURLs) uploadURLs = ys
                  \<and> GetShuttleClients (l\<lparr>rand_draw := draw\<rparr>) config
                      = (tr, Returns (build_clients l (APIKey config) ys []))))"
proof -
  let ?shuffled = "Shuffle (rand_draw l) (length uploadURLs) uploadURLs"
  have ne: "uploadURLs \<noteq> []"
    using assms by (auto simp: GetShuttleClients_def split: if_splits)
  have perm: "mset ?shuffled = mset uploadURLs" by (rule mset_Shuffle)
  have "build_clients l (APIKey config) ?shuffled [] = (clients, None)"
    using assms by (auto simp: GetShuttleClients_def split: if_splits)
  from build_clients_acc [OF this]
  have cl: "map Inr clients =
      map (\<lambda>u. NewClientWithResponses l (URL_String l u) (APIKey config)) ?shuffled"
    by simp
  have "length clients = length ?shuffled"
    using arg_cong [OF cl, of length] by simp
  also have "\<dots> = length uploadURLs"
    using arg_cong [OF perm, of size] by simp
  finally have len: "length clients = length uploadURLs" .
  have lst: "last ?shuffled = uploadURLs ! (rand_draw l (length uploadURLs) mod length uploadURLs)"
    using ne by (rule last_Shuffle)
  have every: "\<exists>draw. Shuffle draw (length uploadURLs) uploadURLs = ys
                  \<and> GetShuttleClients (l\<lparr>rand_draw := draw\<rparr>) config
                      = (tr, Returns (build_clients l (APIKey config) ys []))"
    if "mset ys = mset uploadURLs" for ys
  proof -
    from Shuffle_reaches [OF that] obtain draw
      where d: "Shuffle draw (length uploadURLs) uploadURLs = ys" by blast
    from GetShuttleClients_shuffled [OF assms(1) assms(2) ne, of draw] d
    show ?thesis by auto
  qed
  show ?thesis using perm cl len lst every by blast
qed

theorem C5_shuffle_witness:
  "NewClient (sample_lib\<lparr>rand_draw := (\<lambda>n. 7 * n + 3)\<rparr>)
       (getGatewayURL (sample_lib\<lparr>rand_draw := (\<lambda>n. 7 * n + 3)\<rparr>)) (APIKey \<lparr>APIKey = ''key''\<rparr>)
     = Inr sample_client
   \<and> getWriteAPIURLs (sample_lib\<lparr>rand_draw := (\<lambda>n. 7 * n + 3)\<rparr>) sample_client =
       ([HttpDo ''GET'' ''https://api.estuary.tech/viewier'',
         Log WarnLevel ''Estuary server URL malformed''],
        Returns ([URL_zero, URL_zero, URL_zero,
                  \<lparr>Scheme = ''https'', Host = ''shuttle-4.estuary.tech'', Path = ''''\<rparr>,
                  \<lparr>Scheme = ''https'', Host = ''shuttle-5.estuary.tech'', Path = ''''\<rparr>], None))
   \<and> GetShuttleClients (sample_lib\<lparr>rand_draw := (\<lambda>n. 7 * n + 3)\<rparr>) \<lparr>APIKey = ''key''\<rparr> =
       ([HttpDo ''GET'' ''https://api.estuary.tech/viewier'',
         Log WarnLevel ''Estuary server URL malformed''],
        Returns ([sample_shuttle '''' 200, sample_shuttle '''' 200, sample_shuttle '''' 200,
                  sample_shuttle ''https://shuttle-5.estuary.tech'' 200,
                  sample_shuttle ''https://shuttle-4.estuary.tech'' 200], None))
   \<and> Shuffle (rand_draw (sample_lib\<lparr>rand_draw := (\<lambda>n. 7 * n + 3)\<rparr>)) 5
         [URL_zero, URL_zero, URL_zero,
          \<lparr>Scheme = ''https'', Host = ''shuttle-4.estuary.tech'', Path = ''''\<rparr>,
          \<lparr>Scheme = ''https'', Host = ''shuttle-5.estuary.tech'', Path = ''''\<rparr>]
     = [URL_zero, URL_zero, URL_zero,
          \<lparr>Scheme = ''https'', Host = ''shuttle-5.estuary.tech'', Path = ''''\<rparr>,
          \<lparr>Scheme = ''https'', Host = ''shuttle-4.estuary.tech'', Path = ''''\<rparr>]
   \<and> mset (Shuffle (rand_draw (sample_lib\<lparr>rand_draw := (\<lambda>n. 7 * n + 3)\<rparr>)) 5
         [URL_zero, URL_zero, URL_zero,
          \<lparr>Scheme = ''https'', Host = ''shuttle-4.estuary.tech'', Path = ''''\<rparr>,
          \<lparr>Scheme = ''https'', Host = ''shuttle-5.estuary.tech'', Path = ''''\<rparr>])
     = mset [URL_zero, URL_zero, URL_zero,
          \<lparr>Scheme = ''https'', Host = ''shuttle-4.estuary.tech'', Path = ''''\<rparr>,
          \<lparr>Scheme = ''https'', Host = ''shuttle-5.estuary.tech'', Path = ''''\<rparr>]
   \<and> last (Shuffle (rand_draw (sample_lib\<lparr>rand_draw := (\<lambda>n. 7 * n + 3)\<rparr>)) 5
         [URL_zero, URL_zero, URL_zero,
          \<lparr>Scheme = ''https'', Host = ''shuttle-4.estuary.tech'', Path = ''''\<rparr>,
          \<lparr>Scheme = ''https'', Host = ''shuttle-5.estuary.tech'', Path = ''''\<rparr>])
     = [URL_zero, URL_zero, URL_zero,
          \<lparr>Scheme = ''https'', Host = ''shuttle-4.estuary.tech'', Path = ''''\<rparr>,
          \<lparr>Scheme = ''https'', Host = ''shuttle-5.estuary.tech'', Path = ''''\<rparr>]
        ! (rand_draw (sample_lib\<lparr>rand_draw := (\<lambda>n. 7 * n + 3)\<rparr>) 5 mod 5)
   \<and> mset [\<lparr>Scheme = ''https'', Host = ''shuttle-5.estuary.tech'', Path = ''''\<rparr>,
            \<lparr>Scheme = ''https'', Host = ''shuttle-4.estuary.tech'', Path = ''''\<rparr>,
            URL_zero, URL_zero, URL_zero]
     = mset [URL_zero, URL_zero, URL_zero,
          \<lparr>Scheme = ''https'', Host = ''shuttle-4.estuary.tech'', Path = ''''\<rparr>,
          \<lparr>Scheme = ''https'', Host = ''shuttle-5.estuary.tech'', Path = ''''\<rparr>]
   \<and> (\<exists>draw.
         Shuffle draw 5
           [URL_zero, URL_zero, URL_zero,
            \<lparr>Scheme = ''https'', Host = ''shuttle-4.estuary.tech'', Path = ''''\<rparr>,
            \<lparr>Scheme = ''https'', Host = ''shuttle-5.estuary.tech'', Path = ''''\<rparr>]
         = [\<lparr>Scheme = ''https'', Host = ''shuttle-5.estuary.tech'', Path = ''''\<rparr>,
            \<lparr>Scheme = ''https'', Host = ''shuttle-4.estuary.tech'', Path = ''''\<rparr>,
            URL_zero, URL_zero, URL_zero]
       \<and> GetShuttleClients (sample_lib\<lparr>rand_draw := (\<lambda>n. 7 * n + 3), rand_draw := draw\<rparr>)
             \<lparr>APIKey = ''key''\<rparr>
         = ([HttpDo ''GET'' ''https://api.estuary.tech/viewier'',
             Log WarnLevel ''Estuary server URL malformed''],
            Returns (build_clients (sample_lib\<lparr>rand_draw := (\<lambda>n. 7 * n + 3)\<rparr>)
              (APIKey \<lparr>APIKey = ''key''\<rparr>)
              [\<lparr>Scheme = ''https'', Host = ''shuttle-5.estuary.tech'', Path = ''''\<rparr>,
               \<lparr>Scheme = ''https'', Host = ''shuttle-4.estuary.tech'', Path = ''''\<rparr>,
               URL_zero, URL_zero, URL_zero] [])))
   \<and> Shuffle (\<lambda>n. 5 * n + 1) 5
         [URL_zero, URL_zero, URL_zero,
          \<lparr>Scheme = ''https'', Host = ''shuttle-4.estuary.tech'', Path = ''''\<rparr>,
          \<lparr>Scheme = ''https'', Host = ''shuttle-5.estuary.tech'', Path = ''''\<rparr>]
     = [URL_zero, URL_zero,
          \<lparr>Scheme = ''https'', Host = ''shuttle-4.estuary.tech'', Path = ''''\<rparr>,
          \<lparr>Scheme = ''https'', Host = ''shuttle-5.estuary.tech'', Path = ''''\<rparr>, URL_zero]"
proof -
  let ?l = "sample_lib\<lparr>rand_draw := (\<lambda>n. 7 * n + 3)\<rparr>"
  let ?u4 = "\<lparr>Scheme = ''https'', Host = ''shuttle-4.estuary.tech'', Path = ''''\<rparr>"
  let ?u5 = "\<lparr>Scheme = ''https'', Host = ''shuttle-5.estuary.tech'', Path = ''''\<rparr>"
  let ?urls = "[URL_zero, URL_zero, URL_zero, ?u4, ?u5]"
  let ?ys = "[?u5, ?u4, URL_zero, URL_zero, URL_zero]"
  let ?tr = "[HttpDo ''GET'' ''https://api.estuary.tech/viewier'',
         Log WarnLevel ''Estuary server URL malformed'']"
  have len: "length ?urls = 5" by simp
  have h1: "NewClient ?l (getGatewayURL ?l) (APIKey \<lparr>APIKey = ''key''\<rparr>) = Inr sample_client"
    by (simp add: sample_lib_def getGatewayURL_def Getenv_def sample_client_def)
  have h2: "getWriteAPIURLs ?l sample_client = (?tr, Returns (?urls, None))"
    by code_simp
  have sh: "Shuffle (rand_draw ?l) 5 ?urls = [URL_zero, URL_zero, URL_zero, ?u5, ?u4]"
    by code_simp
  have sh': "Shuffle (rand_draw ?l) (length ?urls) ?urls
      = [URL_zero, URL_zero, URL_zero, ?u5, ?u4]"
    unfolding len by (rule sh)
  have other: "Shuffle (\<lambda>n. 5 * n + 1) 5 ?urls = [URL_zero, URL_zero, ?u4, ?u5, URL_zero]"
    by code_simp
  have bc: "build_clients ?l ''key'' [URL_zero, URL_zero, URL_zero, ?u5, ?u4] []
     = ([sample_shuttle '''' 200, sample_shuttle '''' 200, sample_shuttle '''' 200,
         sample_shuttle ''https://shuttle-5.estuary.tech'' 200,
         sample_shuttle ''https://shuttle-4.estuary.tech'' 200], None)"
    by (simp add: sample_lib_def sample_string_def URL_zero_def)
  have g: "GetShuttleClients ?l \<lparr>APIKey = ''key''\<rparr> =
       (?tr, Returns (build_clients ?l ''key''
          (Shuffle (rand_draw ?l) (length ?urls) ?urls) []))"
    using h1 h2 by (simp add: GetShuttleClients_def)
  have h3: "GetShuttleClients ?l \<lparr>APIKey = ''key''\<rparr> =
       (?tr, Returns ([sample_shuttle '''' 200, sample_shuttle '''' 200, sample_shuttle '''' 200,
                  sample_shuttle ''https://shuttle-5.estuary.tech'' 200,
                  sample_shuttle ''https://shuttle-4.estuary.tech'' 200], None))"
    by (simp only: g sh' bc)
  have ms: "mset ?ys = mset ?urls" by simp
  note inst = C5_shuffle_is_permutation [OF h1 h2 h3, unfolded len]
  have m5: "mset (Shuffle (rand_draw ?l) 5 ?urls) = mset ?urls"
    using inst by (rule conjunct1)
  have l5: "last (Shuffle (rand_draw ?l) 5 ?urls) = ?urls ! (rand_draw ?l 5 mod 5)"
    using inst by blast
  have "\<forall>ys. mset ys = mset ?urls \<longrightarrow>
            (\<exists>draw. Shuffle draw 5 ?urls = ys
                  \<and> GetShuttleClients (?l\<lparr>rand_draw := draw\<rparr>) \<lparr>APIKey = ''key''\<rparr>
                      = (?tr, Returns (build_clients ?l (APIKey \<lparr>APIKey = ''key''\<rparr>) ys [])))"
    using inst by blast
  then have ex: "\<exists>draw. Shuffle draw 5 ?urls = ?ys
                  \<and> GetShuttleClients (?l\<lparr>rand_draw := draw\<rparr>) \<lparr>APIKey = ''key''\<rparr>
                      = (?tr, Returns (build_clients ?l (APIKey \<lparr>APIKey = ''key''\<rparr>) ?ys []))"
    using ms by blast
  show ?thesis by (intro conjI h1 h2 h3 sh m5 l5 ms ex other)
qed

subsection \<open>The walk over the shuttles\<close>

text \<open>
  C2. An attempt that ends in a status outside 2xx should be logged and followed by the
  next endpoint. Here the first shuttle answers 500 with no transport error and the
  second would answer 200: the walk ends at the first with a published spec, nothing is
  logged, and the second is never tried.
\<close>

theorem C2_status_500_ends_the_walk:
  "try_shuttles sample_lib \<lparr>JobID = ''j1'', Index = 0\<rparr> ''h1'' ''bafybeigdyrzt''
     ''/tmp/bacalhau-estuary-publisher1/results.car'' 0
     [sample_shuttle ''https://shuttle-4.estuary.tech'' 500,
      sample_shuttle ''https://shuttle-5.estuary.tech'' 200]
   = ([OpenFile ''/tmp/bacalhau-estuary-publisher1/results.car'',
       PostContentAddCar ''https://shuttle-4.estuary.tech''],
      (\<lparr>StorageSource = StorageSourceEstuary, Name = ''job-j1-host-h1'',
        CID = ''bafybeigdyrzt''\<rparr>, None))"
  by code_simp

end
